theory Spec2Isabelle
  imports Main
begin

section \<open>Calendar root state of bits-ui (calendar.svelte.ts)\<close>

subsection \<open>The date capability\<close>

text \<open>
  \<^verbatim>\<open>DateValue\<close> is the union type of \<^verbatim>\<open>@internationalized/date\<close>: a calendar
  date, with or without a time of day. All values are of the Gregorian calendar and
  immutable. The zoned variant behaves like \<^verbatim>\<open>CalendarDateTime\<close> for every operation
  used below and is not represented separately.
\<close>

datatype DateValue =
    CalendarDate (year: int) (month: int) (day: int)
  | CalendarDateTime (year: int) (month: int) (day: int)
      (hour: nat) (minute: nat) (second: nat) (millisecond: nat)

text \<open>\<^verbatim>\<open>isSameDay(a, b)\<close> of the date library: the same calendar day, whatever the time.\<close>

definition isSameDay :: "DateValue \<Rightarrow> DateValue \<Rightarrow> bool" where
  "isSameDay a b = (year a = year b \<and> month a = month b \<and> day a = day b)"

text \<open>\<^verbatim>\<open>isSameMonth(a, b)\<close> of the date library.\<close>

definition isSameMonth :: "DateValue \<Rightarrow> DateValue \<Rightarrow> bool" where
  "isSameMonth a b = (year a = year b \<and> month a = month b)"

text \<open>
  Modelled from the spec: \<^verbatim>\<open>isBefore\<close> of \<^verbatim>\<open>$lib/shared/date/utils.js\<close> is imported by
  the calendar and its body is not among the sources. The spec describes dates as
  "comparable by calendar day" and the bounds as rejecting "a date before minValue or
  after maxValue": a strict comparison of calendar days.
\<close>

definition isBefore :: "DateValue \<Rightarrow> DateValue \<Rightarrow> bool" where
  "isBefore dateToCompare referenceDate =
     (year dateToCompare < year referenceDate
      \<or> (year dateToCompare = year referenceDate
          \<and> (month dateToCompare < month referenceDate
              \<or> (month dateToCompare = month referenceDate
                  \<and> day dateToCompare < day referenceDate))))"

subsection \<open>The data of the root state\<close>

text \<open>
  The committed selection, \<^verbatim>\<open>DateValue | undefined | DateValue[]\<close>. The shape is
  not tied to the mode by the type, so all three shapes occur in both modes.
\<close>

datatype SelectionValue = Undefined | Date DateValue | Dates "DateValue list"

datatype CalendarType = TypeSingle | TypeMultiple

datatype Politeness = Polite | Assertive

text \<open>
  What the root does to its collaborators, in the order it does it: a call of
  \<^verbatim>\<open>announcer.announce(message, politeness, duration?)\<close> and a call of the
  \<^verbatim>\<open>onDateSelect\<close> callback.
\<close>

datatype Effect = Announce string Politeness "nat option" | OnDateSelect

text \<open>What a \<^verbatim>\<open>throw\<close> of the source carries.\<close>

datatype Failure = Error string | TypeError

text \<open>One entry of \<^verbatim>\<open>months\<close>; only its \<^verbatim>\<open>value\<close> is read by the root's operations.\<close>

datatype Month = Month (month_value: DateValue)

text \<open>
  The fields of \<^verbatim>\<open>CalendarRootState\<close> that selection, validity and paging read or
  write. A boxed prop \<^verbatim>\<open>this.x.current\<close> is the field \<open>x_current\<close>. The field
  \<open>onDateSelect_current\<close> tells whether a callback was supplied (the source calls it
  through \<^verbatim>\<open>?.\<close>), \<open>formatter_selectedDate\<close> is \<^verbatim>\<open>formatter.selectedDate\<close>, and
  \<open>effects\<close> is the log of announcements and callback calls made so far.
\<close>

record CalendarRootState =
  value_current :: SelectionValue
  placeholder_current :: DateValue
  preventDeselect_current :: bool
  minValue_current :: "DateValue option"
  maxValue_current :: "DateValue option"
  disabled_current :: bool
  pagedNavigation_current :: bool
  isDateDisabledProp_current :: "DateValue \<Rightarrow> bool"
  isDateUnavailableProp_current :: "DateValue \<Rightarrow> bool"
  numberOfMonths_current :: nat
  type_current :: CalendarType
  readonly_current :: bool
  onDateSelect_current :: bool
  formatter_selectedDate :: "DateValue \<Rightarrow> bool \<Rightarrow> string"
  months :: "Month list"
  effects :: "Effect list"

subsection \<open>Validity of a date\<close>

text \<open>\<^verbatim>\<open>CalendarRootState.isDateDisabled\<close>.\<close>

definition isDateDisabled :: "CalendarRootState \<Rightarrow> DateValue \<Rightarrow> bool" where
  "isDateDisabled this date =
     (if isDateDisabledProp_current this date \<or> disabled_current this then True
      else if (case minValue_current this of None \<Rightarrow> False
               | Some minValue \<Rightarrow> isBefore date minValue) then True
      else if (case maxValue_current this of None \<Rightarrow> False
               | Some maxValue \<Rightarrow> isBefore maxValue date) then True
      else False)"

text \<open>\<^verbatim>\<open>Array.prototype.some\<close> and \<^verbatim>\<open>Array.prototype.findIndex\<close>.\<close>

fun some :: "('a \<Rightarrow> bool) \<Rightarrow> 'a list \<Rightarrow> bool" where
  "some p [] = False"
| "some p (x # xs) = (if p x then True else some p xs)"

fun findIndex :: "('a \<Rightarrow> bool) \<Rightarrow> 'a list \<Rightarrow> int" where
  "findIndex p [] = - 1"
| "findIndex p (x # xs) =
     (if p x then 0
      else (let i = findIndex p xs in if i = - 1 then - 1 else i + 1))"

text \<open>\<^verbatim>\<open>CalendarRootState.isDateSelected\<close>.\<close>

definition isDateSelected :: "CalendarRootState \<Rightarrow> DateValue \<Rightarrow> bool" where
  "isDateSelected this date =
     (case value_current this of
        Dates vs \<Rightarrow> some (\<lambda>d. isSameDay d date) vs
      | Undefined \<Rightarrow> False
      | Date v \<Rightarrow> isSameDay v date)"

subsection \<open>The selection-mutation entry point\<close>

text \<open>
  The two private update methods return the next selection and may move the
  placeholder on the way, so they return the root together with their result. A
  \<^verbatim>\<open>throw\<close> is the left summand. \<open>DEV\<close> is the build flag of \<^verbatim>\<open>esm-env\<close>.
\<close>

text \<open>
  \<^verbatim>\<open>#handleMultipleUpdate(prev, date)\<close>. \<^verbatim>\<open>!prev\<close> holds of \<^verbatim>\<open>undefined\<close> only (an
  empty array is truthy); a bare \<^verbatim>\<open>return\<close> yields \<^verbatim>\<open>undefined\<close>.
\<close>

definition handleMultipleUpdate ::
  "bool \<Rightarrow> CalendarRootState \<Rightarrow> SelectionValue \<Rightarrow> DateValue
     \<Rightarrow> Failure + (CalendarRootState \<times> SelectionValue)" where
  "handleMultipleUpdate DEV this prev date =
     (case prev of
        Undefined \<Rightarrow> Inr (this, Dates [date])
      | Date v \<Rightarrow>
          (if DEV then Inl (Error ''Invalid value for multiple prop.'')
           else Inr (this, Undefined))
      | Dates vs \<Rightarrow>
          (let index = findIndex (\<lambda>d. isSameDay d date) vs;
               preventDeselect = preventDeselect_current this
           in if index = - 1 then Inr (this, Dates (vs @ [date]))
              else if preventDeselect then Inr (this, Dates vs)
              else (let next = filter (\<lambda>d. \<not> isSameDay d date) vs
                    in if next = []
                       then Inr (this\<lparr>placeholder_current := date\<rparr>, Undefined)
                       else Inr (this, Dates next))))"

text \<open>
  \<^verbatim>\<open>#handleSingleUpdate(prev, date)\<close>. With an array for \<^verbatim>\<open>prev\<close> and no \<open>DEV\<close> the
  source falls through its first test: an array is truthy, and \<^verbatim>\<open>isSameDay\<close> is only
  reached when deselect-prevention is off, where the date library is handed an array
  for a date and dereferences its missing calendar (a \<^verbatim>\<open>TypeError\<close>).
\<close>

definition handleSingleUpdate ::
  "bool \<Rightarrow> CalendarRootState \<Rightarrow> SelectionValue \<Rightarrow> DateValue
     \<Rightarrow> Failure + (CalendarRootState \<times> SelectionValue)" where
  "handleSingleUpdate DEV this prev date =
     (case prev of
        Dates vs \<Rightarrow>
          (if DEV then Inl (Error ''Invalid value for single prop.'')
           else if preventDeselect_current this then Inr (this, Date date)
           else Inl TypeError)
      | Undefined \<Rightarrow> Inr (this, Date date)
      | Date v \<Rightarrow>
          (let preventDeselect = preventDeselect_current this
           in if \<not> preventDeselect \<and> isSameDay v date
              then Inr (this\<lparr>placeholder_current := date\<rparr>, Undefined)
              else Inr (this, Date date)))"

definition isArray :: "SelectionValue \<Rightarrow> bool" where
  "isArray v = (case v of Dates vs \<Rightarrow> True | _ \<Rightarrow> False)"

definition announce ::
  "string \<Rightarrow> Politeness \<Rightarrow> nat option \<Rightarrow> CalendarRootState \<Rightarrow> CalendarRootState" where
  "announce message politeness duration this =
     this\<lparr>effects := effects this @ [Announce message politeness duration]\<rparr>"

text \<open>\<^verbatim>\<open>this.onDateSelect?.current?.()\<close>: a call when a callback was supplied.\<close>

definition callOnDateSelect :: "CalendarRootState \<Rightarrow> CalendarRootState" where
  "callOnDateSelect this =
     (if onDateSelect_current this then this\<lparr>effects := effects this @ [OnDateSelect]\<rparr>
      else this)"

text \<open>\<^verbatim>\<open>CalendarRootState.handleCellClick(_, date)\<close>.\<close>

definition handleCellClick ::
  "bool \<Rightarrow> CalendarRootState \<Rightarrow> DateValue \<Rightarrow> Failure + CalendarRootState" where
  "handleCellClick DEV this date =
     (if readonly_current this then Inr this
      else if isDateDisabledProp_current this date \<or> isDateUnavailableProp_current this date
      then Inr this
      else
        (let prev = value_current this;
             multiple = (type_current this = TypeMultiple)
         in if multiple then
              (if isArray prev \<or> prev = Undefined then
                 (case handleMultipleUpdate DEV this prev date of
                    Inl e \<Rightarrow> Inl e
                  | Inr (this', v) \<Rightarrow> Inr (this'\<lparr>value_current := v\<rparr>))
               else Inr this)
            else
              (if \<not> isArray prev then
                 (case handleSingleUpdate DEV this prev date of
                    Inl e \<Rightarrow> Inl e
                  | Inr (this', next) \<Rightarrow>
                      (let announced =
                             (case next of
                                Date n \<Rightarrow>
                                  announce (''Selected Date: '' @ formatter_selectedDate this' n False)
                                    Polite None this'
                              | _ \<Rightarrow>
                                  announce ''Selected date is now empty.'' Polite (Some 5000) this');
                           committed = announced\<lparr>value_current := next\<rparr>
                       in Inr (if next \<noteq> Undefined then callOnDateSelect committed
                               else committed)))
               else Inr this)))"

text \<open>
  \<^verbatim>\<open>CalendarDayState.#onclick\<close>: the click handler of a day. \<^verbatim>\<open>cell.isDisabled\<close> is
  the root's \<^verbatim>\<open>isDateDisabled\<close> of the cell's date.
\<close>

definition onclick ::
  "bool \<Rightarrow> CalendarRootState \<Rightarrow> DateValue \<Rightarrow> Failure + CalendarRootState" where
  "onclick DEV root date =
     (if isDateDisabled root date then Inr root else handleCellClick DEV root date)"

text \<open>
  The callback the constructor registers with \<^verbatim>\<open>watch(this.value, ...)\<close>: it runs
  when the selection has changed. Dates are immutable values, so the test
  \<^verbatim>\<open>placeholder !== value\<close> before the assignment only saves a write.
\<close>

definition watchValue :: "CalendarRootState \<Rightarrow> CalendarRootState" where
  "watchValue this =
     (case value_current this of
        Dates vs \<Rightarrow>
          (if vs \<noteq> [] then this\<lparr>placeholder_current := last vs\<rparr> else this)
      | Date v \<Rightarrow> this\<lparr>placeholder_current := v\<rparr>
      | Undefined \<Rightarrow> this)"

subsection \<open>Sequences of interactions\<close>

text \<open>
  A run of the widget: calls of \<^verbatim>\<open>handleCellClick\<close>, clicks on a day, and runs of
  the selection watcher, in any order. A failure ends the run.
\<close>

datatype Event = CellClick DateValue | DayClick DateValue | ValueWatch

fun dispatch :: "bool \<Rightarrow> CalendarRootState \<Rightarrow> Event \<Rightarrow> Failure + CalendarRootState" where
  "dispatch DEV this (CellClick date) = handleCellClick DEV this date"
| "dispatch DEV this (DayClick date) = onclick DEV this date"
| "dispatch DEV this ValueWatch = Inr (watchValue this)"

fun run :: "bool \<Rightarrow> CalendarRootState \<Rightarrow> Event list \<Rightarrow> Failure + CalendarRootState" where
  "run DEV this [] = Inr this"
| "run DEV this (e # es) =
     (case dispatch DEV this e of Inl f \<Rightarrow> Inl f | Inr this' \<Rightarrow> run DEV this' es)"

text \<open>No two entries of a selection fall on the same day.\<close>

fun sameDayFree :: "DateValue list \<Rightarrow> bool" where
  "sameDayFree [] = True"
| "sameDayFree (x # xs) = (\<not> some (\<lambda>d. isSameDay d x) xs \<and> sameDayFree xs)"

text \<open>The selections of multiple mode: nothing, or an array with no same-day pair.\<close>

definition multipleOk :: "SelectionValue \<Rightarrow> bool" where
  "multipleOk v =
     (case v of Undefined \<Rightarrow> True | Date d \<Rightarrow> False | Dates vs \<Rightarrow> sameDayFree vs)"

text \<open>
  The guards at the head of \<^verbatim>\<open>handleCellClick\<close> let the click through: the calendar is
  not readonly and neither matcher prop rejects the date.
\<close>

definition accepts :: "CalendarRootState \<Rightarrow> DateValue \<Rightarrow> bool" where
  "accepts this date =
     (\<not> readonly_current this \<and> \<not> isDateDisabledProp_current this date
      \<and> \<not> isDateUnavailableProp_current this date)"

subsection \<open>Paging\<close>

text \<open>
  Month arithmetic of the date capability, \<^verbatim>\<open>date.add({ months: n })\<close> and
  \<^verbatim>\<open>date.subtract({ months: n })\<close> (a negative \<open>n\<close>): the month moves, the year
  follows, the day is clamped to the length of the target month and the time stays.
\<close>

definition isLeapYear :: "int \<Rightarrow> bool" where
  "isLeapYear y = (y mod 4 = 0 \<and> (y mod 100 \<noteq> 0 \<or> y mod 400 = 0))"

definition daysInMonth :: "int \<Rightarrow> int \<Rightarrow> int" where
  "daysInMonth y m =
     (if m = 2 then (if isLeapYear y then 29 else 28)
      else if m = 4 \<or> m = 6 \<or> m = 9 \<or> m = 11 then 30
      else 31)"

fun setDate :: "DateValue \<Rightarrow> int \<Rightarrow> int \<Rightarrow> int \<Rightarrow> DateValue" where
  "setDate (CalendarDate _ _ _) y m d = CalendarDate y m d"
| "setDate (CalendarDateTime _ _ _ h mi s ms) y m d = CalendarDateTime y m d h mi s ms"

definition addMonths :: "DateValue \<Rightarrow> int \<Rightarrow> DateValue" where
  "addMonths date n =
     (let t = year date * 12 + (month date - 1) + n;
          y = t div 12;
          m = t mod 12 + 1
      in setDate date y m (min (day date) (daysInMonth y m)))"

definition startOfMonth :: "DateValue \<Rightarrow> DateValue" where
  "startOfMonth date = setDate date (year date) (month date) 1"

text \<open>The months counted from the year 0: what month arithmetic adds to.\<close>

definition monthIndex :: "DateValue \<Rightarrow> int" where
  "monthIndex date = year date * 12 + (month date - 1)"

text \<open>A date the date capability can hold: a month of the year and a day of that month.\<close>

definition validDate :: "DateValue \<Rightarrow> bool" where
  "validDate date =
     (1 \<le> month date \<and> month date \<le> 12
      \<and> 1 \<le> day date \<and> day date \<le> daysInMonth (year date) (month date))"

text \<open>
  Modelled from the spec: \<^verbatim>\<open>createMonths\<close> of
  \<^verbatim>\<open>$lib/shared/date/calendar-helpers.svelte.js\<close> is not among the sources. The spec's
  month grid builder "produces monthCount consecutive months starting at placeholder's
  month", and a month's \<^verbatim>\<open>value\<close> is the "first day of month". The week rows of a
  month are left out: paging reads the values only.
\<close>

definition createMonths :: "DateValue \<Rightarrow> nat \<Rightarrow> Month list" where
  "createMonths dateObj numberOfMonths =
     map (\<lambda>i. Month (startOfMonth (addMonths dateObj (int i)))) [0..<numberOfMonths]"

text \<open>
  Modelled from the spec: \<^verbatim>\<open>handleCalendarNextPage\<close> and \<^verbatim>\<open>handleCalendarPrevPage\<close> of
  \<^verbatim>\<open>$lib/shared/date/calendar-helpers.svelte.js\<close> are not among the sources. The root
  hands them the window \<^verbatim>\<open>months\<close>, \<^verbatim>\<open>numberOfMonths\<close>, \<^verbatim>\<open>pagedNavigation\<close> and the
  setters of the placeholder and of the window, and not the placeholder itself, so the
  jump starts at the first month of the window. The spec: "if pagedNavigation is set,
  jump by exactly monthCount months; otherwise jump by exactly one month", then
  "rebuilds the month window from the new placeholder using the month grid builder".
  The result is what the helper passes to \<^verbatim>\<open>setPlaceholder\<close> and \<^verbatim>\<open>setMonths\<close>; on an
  empty window, of which the spec says nothing, it calls neither.
\<close>

definition handleCalendarNextPage ::
  "Month list \<Rightarrow> nat \<Rightarrow> bool \<Rightarrow> (DateValue \<times> Month list) option" where
  "handleCalendarNextPage ms numberOfMonths pagedNavigation =
     (case ms of
        [] \<Rightarrow> None
      | firstMonth # _ \<Rightarrow>
          (let jump = (if pagedNavigation then int numberOfMonths else 1);
               newPlaceholder = addMonths (month_value firstMonth) jump
           in Some (newPlaceholder, createMonths newPlaceholder numberOfMonths)))"

definition handleCalendarPrevPage ::
  "Month list \<Rightarrow> nat \<Rightarrow> bool \<Rightarrow> (DateValue \<times> Month list) option" where
  "handleCalendarPrevPage ms numberOfMonths pagedNavigation =
     (case ms of
        [] \<Rightarrow> None
      | firstMonth # _ \<Rightarrow>
          (let jump = (if pagedNavigation then int numberOfMonths else 1);
               newPlaceholder = addMonths (month_value firstMonth) (- jump)
           in Some (newPlaceholder, createMonths newPlaceholder numberOfMonths)))"

text \<open>\<^verbatim>\<open>CalendarRootState.nextPage\<close> and \<^verbatim>\<open>CalendarRootState.prevPage\<close>.\<close>

definition nextPage :: "CalendarRootState \<Rightarrow> CalendarRootState" where
  "nextPage this =
     (case handleCalendarNextPage (months this) (numberOfMonths_current this)
             (pagedNavigation_current this) of
        None \<Rightarrow> this
      | Some (date, ms) \<Rightarrow> this\<lparr>placeholder_current := date, months := ms\<rparr>)"

definition prevPage :: "CalendarRootState \<Rightarrow> CalendarRootState" where
  "prevPage this =
     (case handleCalendarPrevPage (months this) (numberOfMonths_current this)
             (pagedNavigation_current this) of
        None \<Rightarrow> this
      | Some (date, ms) \<Rightarrow> this\<lparr>placeholder_current := date, months := ms\<rparr>)"

text \<open>\<^verbatim>\<open>visibleMonths\<close>, derived from \<^verbatim>\<open>months\<close>.\<close>

definition visibleMonths :: "CalendarRootState \<Rightarrow> DateValue list" where
  "visibleMonths this = map month_value (months this)"

subsection \<open>Concrete calendars\<close>

text \<open>
  A calendar with no matcher, no bound and an empty selection, showing January and
  February 2024; its formatter only tells the first days of a month from the rest.
\<close>

definition showDay :: "DateValue \<Rightarrow> bool \<Rightarrow> string" where
  "showDay date includeTime = (if day date < 10 then ''early'' else ''late'')"

definition calendar0 :: CalendarRootState where
  "calendar0 =
     \<lparr> value_current = Undefined,
       placeholder_current = CalendarDate 2024 1 20,
       preventDeselect_current = False,
       minValue_current = None,
       maxValue_current = None,
       disabled_current = False,
       pagedNavigation_current = True,
       isDateDisabledProp_current = (\<lambda>d. False),
       isDateUnavailableProp_current = (\<lambda>d. False),
       numberOfMonths_current = 2,
       type_current = TypeSingle,
       readonly_current = False,
       onDateSelect_current = True,
       formatter_selectedDate = showDay,
       months = [Month (CalendarDate 2024 1 1), Month (CalendarDate 2024 2 1)],
       effects = [] \<rparr>"

text \<open>The same calendar, open from 10 to 20 January 2024.\<close>

definition calendarBounded :: CalendarRootState where
  "calendarBounded =
     calendar0\<lparr>minValue_current := Some (CalendarDate 2024 1 10),
               maxValue_current := Some (CalendarDate 2024 1 20)\<rparr>"

text \<open>The calendar in multiple mode, still with nothing selected.\<close>

definition calendarMultiple :: CalendarRootState where
  "calendarMultiple = calendar0\<lparr>type_current := TypeMultiple\<rparr>"

text \<open>Single mode with 5 January 2024 selected and deselect-prevention on.\<close>

definition calendarSelected :: CalendarRootState where
  "calendarSelected =
     calendar0\<lparr>value_current := Date (CalendarDate 2024 1 5),
               preventDeselect_current := True\<rparr>"

text \<open>The two mismatches of shape and mode: an array in single mode, a date in multiple mode.\<close>

definition calendarArrayInSingle :: CalendarRootState where
  "calendarArrayInSingle = calendar0\<lparr>value_current := Dates [CalendarDate 2024 1 5]\<rparr>"

definition calendarDateInMultiple :: CalendarRootState where
  "calendarDateInMultiple = calendarMultiple\<lparr>value_current := Date (CalendarDate 2024 1 5)\<rparr>"

text \<open>Multiple mode after 15 March and then 1 March 2024 were picked.\<close>

definition calendarPicked :: CalendarRootState where
  "calendarPicked =
     calendarMultiple\<lparr>value_current := Dates [CalendarDate 2024 3 15, CalendarDate 2024 3 1]\<rparr>"

text \<open>The first calendar with rolling instead of paged navigation.\<close>

definition calendarRolling :: CalendarRootState where
  "calendarRolling = calendar0\<lparr>pagedNavigation_current := False\<rparr>"

section \<open>Properties\<close>

lemmas calendar_simps =
  calendar0_def calendarBounded_def calendarMultiple_def calendarSelected_def
  calendarArrayInSingle_def calendarDateInMultiple_def calendarPicked_def
  accepts_def isSameDay_def

lemmas click_simps =
  handleCellClick_def handleSingleUpdate_def handleMultipleUpdate_def isArray_def
  announce_def callOnDateSelect_def onclick_def watchValue_def showDay_def Let_def

subsection \<open>Array helpers\<close>

lemma some_iff: "some p xs \<longleftrightarrow> (\<exists>x\<in>set xs. p x)"
  by (induction xs) auto

lemma findIndex_ge: "- 1 \<le> findIndex p xs"
  by (induction xs) (auto simp: Let_def)

lemma findIndex_none: "findIndex p xs = - 1 \<longleftrightarrow> \<not> some p xs"
proof (induction xs)
  case Nil
  then show ?case by simp
next
  case (Cons x xs)
  have "findIndex p xs + 1 \<noteq> - 1"
    using findIndex_ge [of p xs] by arith
  with Cons show ?case by (simp add: Let_def)
qed

lemma isSameDay_sym: "isSameDay a b = isSameDay b a"
  by (auto simp: isSameDay_def)

subsection \<open>Disabled dates\<close>

text \<open>
  C7. \<^verbatim>\<open>isDateDisabled(d)\<close> is true exactly when the disabled matcher accepts \<open>d\<close>, or
  the calendar-wide disabled flag is set, or \<open>minValue\<close> is defined and \<open>d\<close> is before
  it, or \<open>maxValue\<close> is defined and \<open>d\<close> is after it; a date on the same day as a bound
  is on neither side of it, so the bounds are inclusive.
\<close>

theorem isDateDisabled_bounds:
  "(isDateDisabled this date \<longleftrightarrow>
      isDateDisabledProp_current this date \<or> disabled_current this
      \<or> (\<exists>minValue. minValue_current this = Some minValue \<and> isBefore date minValue)
      \<or> (\<exists>maxValue. maxValue_current this = Some maxValue \<and> isBefore maxValue date))
   \<and> (\<forall>bound. isSameDay date bound \<longrightarrow> \<not> isBefore date bound \<and> \<not> isBefore bound date)"
  by (auto simp: isDateDisabled_def isSameDay_def isBefore_def split: option.splits)

theorem isDateDisabled_bounds_witness:
  "isSameDay (CalendarDateTime 2024 1 10 9 30 0 0) (CalendarDate 2024 1 10)
   \<and> \<not> isDateDisabled calendarBounded (CalendarDateTime 2024 1 10 9 30 0 0)
   \<and> \<not> isDateDisabled calendarBounded (CalendarDate 2024 1 20)
   \<and> isDateDisabled calendarBounded (CalendarDate 2024 1 9)
   \<and> isDateDisabled calendarBounded (CalendarDate 2024 1 21)"
  using isDateDisabled_bounds [of calendarBounded "CalendarDateTime 2024 1 10 9 30 0 0"]
    isDateDisabled_bounds [of calendarBounded "CalendarDate 2024 1 20"]
    isDateDisabled_bounds [of calendarBounded "CalendarDate 2024 1 9"]
    isDateDisabled_bounds [of calendarBounded "CalendarDate 2024 1 21"]
  by (simp add: calendarBounded_def calendar0_def isSameDay_def isBefore_def)

subsection \<open>Rejected clicks\<close>

lemma handleCellClick_guards:
  "readonly_current this \<or> isDateDisabledProp_current this date
     \<or> isDateUnavailableProp_current this date
   \<Longrightarrow> handleCellClick DEV this date = Inr this"
  by (auto simp: handleCellClick_def)





subsection \<open>What a click does, case by case\<close>

lemma single_commit:
  assumes "type_current this = TypeSingle" and "accepts this date"
    and "value_current this = Undefined
         \<or> (\<exists>v. value_current this = Date v
                \<and> (preventDeselect_current this \<or> \<not> isSameDay v date))"
  shows "handleCellClick DEV this date =
           Inr (this\<lparr>value_current := Date date,
                  effects := effects this
                    @ Announce (''Selected Date: '' @ formatter_selectedDate this date False)
                        Polite None
                    # (if onDateSelect_current this then [OnDateSelect] else [])\<rparr>)"
  using assms
  by (auto simp: handleCellClick_def handleSingleUpdate_def accepts_def isArray_def
      announce_def callOnDateSelect_def)

lemma single_clear:
  assumes "type_current this = TypeSingle" and "accepts this date"
    and "value_current this = Date v" and "\<not> preventDeselect_current this"
    and "isSameDay v date"
  shows "handleCellClick DEV this date =
           Inr (this\<lparr>value_current := Undefined, placeholder_current := date,
                  effects := effects this
                    @ [Announce ''Selected date is now empty.'' Polite (Some 5000)]\<rparr>)"
  using assms
  by (auto simp: handleCellClick_def handleSingleUpdate_def accepts_def isArray_def
      announce_def callOnDateSelect_def)

lemma shape_mismatch_noop:
  assumes "type_current this = TypeSingle \<and> isArray (value_current this)
           \<or> type_current this = TypeMultiple \<and> (\<exists>v. value_current this = Date v)"
  shows "handleCellClick DEV this date = Inr this"
  using assms
  by (auto simp: handleCellClick_def isArray_def)

lemma multiple_append:
  assumes "type_current this = TypeMultiple" and "accepts this date"
    and "value_current this = Dates vs" and "\<not> some (\<lambda>d. isSameDay d date) vs"
  shows "handleCellClick DEV this date = Inr (this\<lparr>value_current := Dates (vs @ [date])\<rparr>)"
  using assms
  by (auto simp: handleCellClick_def handleMultipleUpdate_def accepts_def isArray_def
      findIndex_none)

lemma multiple_first:
  assumes "type_current this = TypeMultiple" and "accepts this date"
    and "value_current this = Undefined"
  shows "handleCellClick DEV this date = Inr (this\<lparr>value_current := Dates [date]\<rparr>)"
  using assms
  by (auto simp: handleCellClick_def handleMultipleUpdate_def accepts_def isArray_def)

lemma multiple_present:
  assumes "type_current this = TypeMultiple" and "accepts this date"
    and "value_current this = Dates vs" and "some (\<lambda>d. isSameDay d date) vs"
  shows "handleCellClick DEV this date =
           Inr (if preventDeselect_current this then this
                else if filter (\<lambda>d. \<not> isSameDay d date) vs = []
                then this\<lparr>value_current := Undefined, placeholder_current := date\<rparr>
                else this\<lparr>value_current := Dates (filter (\<lambda>d. \<not> isSameDay d date) vs)\<rparr>)"
  using assms
  by (auto simp: handleCellClick_def handleMultipleUpdate_def accepts_def isArray_def
      findIndex_none Let_def)

subsection \<open>Shape of the selection against the mode\<close>

text \<open>
  \<^verbatim>\<open>handleCellClick\<close> never throws: it calls an update method only after testing the
  shape of the selection itself, so the \<open>DEV\<close> failures of the two update methods are
  out of its reach.
\<close>

lemma handleCellClick_never_fails: "\<exists>this'. handleCellClick DEV this date = Inr this'"
  by (cases "value_current this")
    (auto simp: handleCellClick_def handleSingleUpdate_def handleMultipleUpdate_def
      isArray_def Let_def)

text \<open>
  C2. The claim: with a selection whose shape does not match the mode,
  \<^verbatim>\<open>handleCellClick\<close> fails in a development build. What the code does in a
  development build, for an array in single mode and for a date in multiple mode: it
  returns without a failure and leaves the root as it was, although the update method
  of the mode, handed the same selection, does throw.
\<close>

theorem shape_mismatch_silent_in_dev:
  "type_current calendarArrayInSingle = TypeSingle
   \<and> value_current calendarArrayInSingle = Dates [CalendarDate 2024 1 5]
   \<and> handleCellClick True calendarArrayInSingle (CalendarDate 2024 1 6)
       = Inr calendarArrayInSingle
   \<and> handleSingleUpdate True calendarArrayInSingle (value_current calendarArrayInSingle)
        (CalendarDate 2024 1 6) = Inl (Error ''Invalid value for single prop.'')
   \<and> type_current calendarDateInMultiple = TypeMultiple
   \<and> value_current calendarDateInMultiple = Date (CalendarDate 2024 1 5)
   \<and> handleCellClick True calendarDateInMultiple (CalendarDate 2024 1 6)
       = Inr calendarDateInMultiple
   \<and> handleMultipleUpdate True calendarDateInMultiple (value_current calendarDateInMultiple)
        (CalendarDate 2024 1 6) = Inl (Error ''Invalid value for multiple prop.'')"
  by (simp add: calendar_simps click_simps)

subsection \<open>Single mode\<close>

lemma watchValue_idem: "watchValue (watchValue this) = watchValue this"
  by (simp add: watchValue_def split: SelectionValue.splits)

lemma run_watches:
  "run DEV this (replicate n ValueWatch @ es) =
     run DEV (if n = 0 then this else watchValue this) es"
proof (induction n arbitrary: this)
  case 0
  then show ?case by simp
next
  case (Suc n)
  then show ?case by (simp add: watchValue_idem)
qed

lemma run_watches_end:
  "run DEV this (replicate n ValueWatch) = Inr (if n = 0 then this else watchValue this)"
  using run_watches [of DEV this n "[]"] by simp

lemma watchValue_frame:
  "type_current (watchValue this) = type_current this
   \<and> value_current (watchValue this) = value_current this
   \<and> preventDeselect_current (watchValue this) = preventDeselect_current this
   \<and> accepts (watchValue this) date = accepts this date"
  by (simp add: watchValue_def accepts_def split: SelectionValue.splits)

lemma watchValue_Undefined: "value_current this = Undefined \<Longrightarrow> watchValue this = this"
  by (simp add: watchValue_def)

text \<open>
  C3, as amended. Single mode, deselect-prevention off, calendar not readonly, nothing
  selected; \<open>d\<close> and \<open>d'\<close> fall on the same day and the matchers reject neither. After
  \<^verbatim>\<open>handleCellClick(d)\<close> the selection is \<open>d\<close>. After a second \<^verbatim>\<open>handleCellClick(d')\<close>
  the selection is undefined and the placeholder is \<open>d'\<close>, the date of the second click:
  it is on the day of \<open>d\<close>, and is \<open>d\<close> when the same date is clicked twice. Runs of the
  selection watcher after either click change none of this. In single mode a defined
  selection becomes undefined only on this path, and a click the guards let through on
  a date of another day replaces the selection with the clicked date.
\<close>

theorem single_select_then_deselect:
  assumes single: "type_current this = TypeSingle"
    and off: "\<not> preventDeselect_current this"
    and empty: "value_current this = Undefined"
    and first: "accepts this d"
    and second: "accepts this d'"
    and same: "isSameDay d' d"
  shows "(\<exists>this1. run DEV this (CellClick d # replicate m ValueWatch) = Inr this1
            \<and> value_current this1 = Date d)
    \<and> (\<exists>this2. run DEV this (CellClick d # replicate m ValueWatch
                                @ CellClick d' # replicate n ValueWatch) = Inr this2
            \<and> value_current this2 = Undefined \<and> placeholder_current this2 = d'
            \<and> isSameDay (placeholder_current this2) d)
    \<and> (\<forall>s e s'. type_current s = TypeSingle \<and> handleCellClick DEV s e = Inr s'
            \<and> value_current s \<noteq> Undefined \<and> value_current s' = Undefined
          \<longrightarrow> (\<exists>v. value_current s = Date v \<and> isSameDay v e
                \<and> \<not> preventDeselect_current s \<and> accepts s e))
    \<and> (\<forall>s v e. type_current s = TypeSingle \<and> accepts s e \<and> value_current s = Date v
            \<and> \<not> isSameDay v e
          \<longrightarrow> (\<exists>s'. handleCellClick DEV s e = Inr s' \<and> value_current s' = Date e))"
proof (intro conjI allI impI)
  define this1 where "this1 =
    this\<lparr>value_current := Date d,
         effects := effects this
           @ Announce (''Selected Date: '' @ formatter_selectedDate this d False) Polite None
           # (if onDateSelect_current this then [OnDateSelect] else [])\<rparr>"
  define mid where "mid = (if m = 0 then this1 else watchValue this1)"
  have step1: "handleCellClick DEV this d = Inr this1"
    unfolding this1_def using single first empty by (intro single_commit) auto
  have mid: "type_current mid = TypeSingle" "\<not> preventDeselect_current mid"
    "value_current mid = Date d" "accepts mid d'"
    using single off second
    by (auto simp: mid_def watchValue_frame) (auto simp: this1_def accepts_def)
  show "\<exists>this1. run DEV this (CellClick d # replicate m ValueWatch) = Inr this1
          \<and> value_current this1 = Date d"
    using step1 mid(3) by (simp add: run_watches_end mid_def)
  define this2 where "this2 =
    mid\<lparr>value_current := Undefined, placeholder_current := d',
        effects := effects mid
          @ [Announce ''Selected date is now empty.'' Polite (Some 5000)]\<rparr>"
  have step2: "handleCellClick DEV mid d' = Inr this2"
    unfolding this2_def using mid same
    by (intro single_clear) (auto simp: isSameDay_sym)
  have "run DEV this (CellClick d # replicate m ValueWatch @ CellClick d' # replicate n ValueWatch)
          = Inr (if n = 0 then this2 else watchValue this2)"
    using step1 step2 run_watches [of DEV this1 m "CellClick d' # replicate n ValueWatch"]
    by (simp add: mid_def run_watches_end)
  moreover have "watchValue this2 = this2"
    by (rule watchValue_Undefined) (simp add: this2_def)
  ultimately have "run DEV this (CellClick d # replicate m ValueWatch
                      @ CellClick d' # replicate n ValueWatch) = Inr this2"
    by simp
  then show "\<exists>this2. run DEV this (CellClick d # replicate m ValueWatch
                                @ CellClick d' # replicate n ValueWatch) = Inr this2
            \<and> value_current this2 = Undefined \<and> placeholder_current this2 = d'
            \<and> isSameDay (placeholder_current this2) d"
    using same by (auto simp: this2_def)
next
  fix s e s'
  assume h: "type_current s = TypeSingle \<and> handleCellClick DEV s e = Inr s'
            \<and> value_current s \<noteq> Undefined \<and> value_current s' = Undefined"
  show "\<exists>v. value_current s = Date v \<and> isSameDay v e
                \<and> \<not> preventDeselect_current s \<and> accepts s e"
  proof (cases "accepts s e")
    case False
    then have "handleCellClick DEV s e = Inr s"
      using handleCellClick_guards [of s e DEV] by (auto simp: accepts_def)
    with h show ?thesis by auto
  next
    case True
    show ?thesis
    proof (cases "value_current s")
      case Undefined
      with h show ?thesis by simp
    next
      case (Dates vs)
      with h have "handleCellClick DEV s e = Inr s"
        by (intro shape_mismatch_noop) (simp add: isArray_def)
      with h show ?thesis by auto
    next
      case (Date v)
      show ?thesis
      proof (cases "preventDeselect_current s \<or> \<not> isSameDay v e")
        case True
        with h Date \<open>accepts s e\<close> show ?thesis
          using single_commit [of s e DEV] by auto
      next
        case False
        with Date \<open>accepts s e\<close> show ?thesis by simp
      qed
    qed
  qed
next
  fix s v e
  assume "type_current s = TypeSingle \<and> accepts s e \<and> value_current s = Date v
            \<and> \<not> isSameDay v e"
  then show "\<exists>s'. handleCellClick DEV s e = Inr s' \<and> value_current s' = Date e"
    using single_commit [of s e DEV] by auto
qed

theorem single_select_then_deselect_witness:
  "type_current calendar0 = TypeSingle \<and> \<not> preventDeselect_current calendar0
   \<and> value_current calendar0 = Undefined
   \<and> accepts calendar0 (CalendarDateTime 2024 1 5 9 0 0 0)
   \<and> accepts calendar0 (CalendarDateTime 2024 1 5 17 0 0 0)
   \<and> isSameDay (CalendarDateTime 2024 1 5 17 0 0 0) (CalendarDateTime 2024 1 5 9 0 0 0)
   \<and> (\<exists>this2. run True calendar0
          [CellClick (CalendarDateTime 2024 1 5 9 0 0 0), ValueWatch,
           CellClick (CalendarDateTime 2024 1 5 17 0 0 0), ValueWatch] = Inr this2
        \<and> value_current this2 = Undefined
        \<and> placeholder_current this2 = CalendarDateTime 2024 1 5 17 0 0 0)"
proof -
  have hyps: "type_current calendar0 = TypeSingle" "\<not> preventDeselect_current calendar0"
    "value_current calendar0 = Undefined"
    "accepts calendar0 (CalendarDateTime 2024 1 5 9 0 0 0)"
    "accepts calendar0 (CalendarDateTime 2024 1 5 17 0 0 0)"
    "isSameDay (CalendarDateTime 2024 1 5 17 0 0 0) (CalendarDateTime 2024 1 5 9 0 0 0)"
    by (simp_all add: calendar_simps)
  have events: "CellClick (CalendarDateTime 2024 1 5 9 0 0 0) # replicate 1 ValueWatch
      @ CellClick (CalendarDateTime 2024 1 5 17 0 0 0) # replicate 1 ValueWatch
    = [CellClick (CalendarDateTime 2024 1 5 9 0 0 0), ValueWatch,
       CellClick (CalendarDateTime 2024 1 5 17 0 0 0), ValueWatch]"
    by simp
  from single_select_then_deselect [OF hyps, of True 1 1, unfolded events] hyps
  show ?thesis by blast
qed

text \<open>
  C3 as stated has the placeholder equal to \<open>d\<close> after the second click. With \<open>d\<close> at
  9:00 and \<open>d'\<close> at 17:00 of 5 January 2024 the two clicks select \<open>d\<close> and clear the
  selection again, and the placeholder is then not \<open>d\<close>.
\<close>

theorem single_deselect_placeholder_counterexample:
  "isSameDay (CalendarDateTime 2024 1 5 17 0 0 0) (CalendarDateTime 2024 1 5 9 0 0 0)
   \<and> map_sum id value_current
        (run True calendar0 [CellClick (CalendarDateTime 2024 1 5 9 0 0 0)])
       = Inr (Date (CalendarDateTime 2024 1 5 9 0 0 0))
   \<and> map_sum id value_current
        (run True calendar0 [CellClick (CalendarDateTime 2024 1 5 9 0 0 0),
                             CellClick (CalendarDateTime 2024 1 5 17 0 0 0)])
       = Inr Undefined
   \<and> map_sum id placeholder_current
        (run True calendar0 [CellClick (CalendarDateTime 2024 1 5 9 0 0 0),
                             CellClick (CalendarDateTime 2024 1 5 17 0 0 0)])
       \<noteq> Inr (CalendarDateTime 2024 1 5 9 0 0 0)"
  by (simp add: calendar_simps click_simps)

text \<open>
  C4, as amended. In single mode, a \<^verbatim>\<open>handleCellClick\<close> that the guards let through ends in one of
  two ways. It commits a date: then it has announced "Selected Date: " followed by the
  formatted date, politely and with no duration, and after that it has called
  \<^verbatim>\<open>onDateSelect\<close> (if a callback was supplied). Or it clears the selection: then it has
  announced "Selected date is now empty." politely for 5000 ms and has not called
  \<^verbatim>\<open>onDateSelect\<close>.
\<close>

theorem single_click_effects:
  assumes "type_current this = TypeSingle" and "accepts this date"
    and "\<not> isArray (value_current this)"
  shows "\<exists>this'. handleCellClick DEV this date = Inr this'
    \<and> (case value_current this' of
          Date n \<Rightarrow>
            effects this' = effects this
              @ Announce (''Selected Date: '' @ formatter_selectedDate this n False) Polite None
              # (if onDateSelect_current this then [OnDateSelect] else [])
        | Undefined \<Rightarrow>
            effects this' = effects this
              @ [Announce ''Selected date is now empty.'' Polite (Some 5000)]
        | Dates vs \<Rightarrow> False)"
proof (cases "value_current this = Undefined
         \<or> (\<exists>v. value_current this = Date v
                \<and> (preventDeselect_current this \<or> \<not> isSameDay v date))")
  case True
  from single_commit [OF assms(1,2) this, of DEV] show ?thesis by simp
next
  case False
  with assms(3) obtain v where v: "value_current this = Date v"
    "\<not> preventDeselect_current this" "isSameDay v date"
    by (cases "value_current this") (auto simp: isArray_def)
  from single_clear [OF assms(1,2) v, of DEV] show ?thesis by simp
qed

theorem single_click_effects_witness:
  "type_current calendar0 = TypeSingle \<and> accepts calendar0 (CalendarDate 2024 1 5)
   \<and> \<not> isArray (value_current calendar0)
   \<and> map_sum id effects (run True calendar0 [CellClick (CalendarDate 2024 1 5)])
       = Inr [Announce ''Selected Date: early'' Polite None, OnDateSelect]
   \<and> map_sum id effects
        (run True calendar0 [CellClick (CalendarDate 2024 1 5), CellClick (CalendarDate 2024 1 5)])
       = Inr [Announce ''Selected Date: early'' Polite None, OnDateSelect,
              Announce ''Selected date is now empty.'' Polite (Some 5000)]"
proof -
  have hyps: "type_current calendar0 = TypeSingle" "accepts calendar0 (CalendarDate 2024 1 5)"
    "\<not> isArray (value_current calendar0)"
    by (simp_all add: calendar_simps isArray_def)
  from single_click_effects [OF hyps, of True] hyps show ?thesis
    by (simp add: calendar_simps click_simps)
qed

text \<open>
  C4 as stated has the message of a clearing click without its full stop. Clicking
  5 January 2024 while it is selected clears the selection, and what is announced is
  the message with the full stop, not the one without.
\<close>

theorem empty_announcement_counterexample:
  "map_sum id value_current
     (handleCellClick True (calendar0\<lparr>value_current := Date (CalendarDate 2024 1 5)\<rparr>)
        (CalendarDate 2024 1 5))
     = Inr Undefined
   \<and> map_sum id effects
     (handleCellClick True (calendar0\<lparr>value_current := Date (CalendarDate 2024 1 5)\<rparr>)
        (CalendarDate 2024 1 5))
     = Inr [Announce ''Selected date is now empty.'' Polite (Some 5000)]
   \<and> map_sum id effects
     (handleCellClick True (calendar0\<lparr>value_current := Date (CalendarDate 2024 1 5)\<rparr>)
        (CalendarDate 2024 1 5))
     \<noteq> Inr [Announce ''Selected date is now empty'' Polite (Some 5000)]"
  by (simp add: calendar_simps click_simps)

text \<open>
  C10. Single mode with deselect-prevention on: a click the guards let through on a
  date of the day already selected is no no-op. It commits the clicked date, announces
  "Selected Date: " with the formatted date and calls \<^verbatim>\<open>onDateSelect\<close>; the placeholder
  stays where it was.
\<close>

theorem preventDeselect_recommits:
  assumes "type_current this = TypeSingle" and "accepts this date"
    and "preventDeselect_current this"
    and "value_current this = Date v" and "isSameDay v date"
  shows "\<exists>this'. handleCellClick DEV this date = Inr this' \<and> this' \<noteq> this
    \<and> value_current this' = Date date
    \<and> effects this' = effects this
         @ Announce (''Selected Date: '' @ formatter_selectedDate this date False) Polite None
         # (if onDateSelect_current this then [OnDateSelect] else [])
    \<and> placeholder_current this' = placeholder_current this"
proof -
  have "value_current this = Undefined
      \<or> (\<exists>v. value_current this = Date v
            \<and> (preventDeselect_current this \<or> \<not> isSameDay v date))"
    using assms by simp
  from single_commit [OF assms(1,2) this, of DEV] show ?thesis
    by (auto dest: arg_cong [where f = effects])
qed

theorem preventDeselect_recommits_witness:
  "type_current calendarSelected = TypeSingle
   \<and> accepts calendarSelected (CalendarDateTime 2024 1 5 17 0 0 0)
   \<and> preventDeselect_current calendarSelected
   \<and> value_current calendarSelected = Date (CalendarDate 2024 1 5)
   \<and> isSameDay (CalendarDate 2024 1 5) (CalendarDateTime 2024 1 5 17 0 0 0)
   \<and> (\<exists>this'. handleCellClick True calendarSelected (CalendarDateTime 2024 1 5 17 0 0 0)
                 = Inr this'
          \<and> this' \<noteq> calendarSelected
          \<and> value_current this' = Date (CalendarDateTime 2024 1 5 17 0 0 0)
          \<and> effects this' = [Announce ''Selected Date: early'' Polite None, OnDateSelect]
          \<and> placeholder_current this' = CalendarDate 2024 1 20)"
proof -
  have hyps: "type_current calendarSelected = TypeSingle"
    "accepts calendarSelected (CalendarDateTime 2024 1 5 17 0 0 0)"
    "preventDeselect_current calendarSelected"
    "value_current calendarSelected = Date (CalendarDate 2024 1 5)"
    "isSameDay (CalendarDate 2024 1 5) (CalendarDateTime 2024 1 5 17 0 0 0)"
    by (simp_all add: calendar_simps)
  have shown: "effects calendarSelected = []" "onDateSelect_current calendarSelected"
    "formatter_selectedDate calendarSelected (CalendarDateTime 2024 1 5 17 0 0 0) False
       = ''early''"
    "placeholder_current calendarSelected = CalendarDate 2024 1 20"
    by (simp_all add: calendar_simps showDay_def)
  from preventDeselect_recommits [OF hyps, of True] hyps shown show ?thesis
    by simp
qed

subsection \<open>Multiple mode\<close>

lemma sameDayFree_append:
  "sameDayFree (vs @ [date]) \<longleftrightarrow> sameDayFree vs \<and> \<not> some (\<lambda>d. isSameDay d date) vs"
  by (induction vs) (auto simp: some_iff isSameDay_sym)

lemma sameDayFree_filter: "sameDayFree vs \<Longrightarrow> sameDayFree (filter p vs)"
  by (induction vs) (auto simp: some_iff)

lemma multiple_step:
  assumes "type_current this = TypeMultiple" and "multipleOk (value_current this)"
  shows "\<exists>this'. handleCellClick DEV this date = Inr this'
           \<and> type_current this' = TypeMultiple \<and> multipleOk (value_current this')"
proof (cases "accepts this date")
  case False
  then have "handleCellClick DEV this date = Inr this"
    using handleCellClick_guards [of this date DEV] by (auto simp: accepts_def)
  with assms show ?thesis by simp
next
  case True
  show ?thesis
  proof (cases "value_current this")
    case Undefined
    with assms True show ?thesis
      by (simp add: multiple_first multipleOk_def)
  next
    case (Date v)
    with assms show ?thesis by (simp add: multipleOk_def)
  next
    case (Dates vs)
    show ?thesis
    proof (cases "some (\<lambda>d. isSameDay d date) vs")
      case False
      with assms True Dates show ?thesis
        by (simp add: multiple_append multipleOk_def sameDayFree_append)
    next
      case present: True
      with assms True Dates show ?thesis
        by (simp add: multiple_present multipleOk_def sameDayFree_filter)
    qed
  qed
qed

lemma watchValue_keeps:
  "type_current (watchValue this) = type_current this
   \<and> value_current (watchValue this) = value_current this"
  by (simp add: watchValue_def split: SelectionValue.splits)

lemma multiple_dispatch:
  assumes "type_current this = TypeMultiple" and "multipleOk (value_current this)"
  shows "\<exists>this'. dispatch DEV this e = Inr this'
           \<and> type_current this' = TypeMultiple \<and> multipleOk (value_current this')"
proof (cases e)
  case (CellClick date)
  with multiple_step [OF assms] show ?thesis by simp
next
  case (DayClick date)
  with multiple_step [OF assms, of DEV date] assms show ?thesis
    by (auto simp: onclick_def)
next
  case ValueWatch
  with assms show ?thesis by (simp add: watchValue_keeps)
qed

lemma multiple_run:
  "type_current this = TypeMultiple \<Longrightarrow> multipleOk (value_current this)
   \<Longrightarrow> \<exists>this'. run DEV this es = Inr this'
           \<and> type_current this' = TypeMultiple \<and> multipleOk (value_current this')"
proof (induction es arbitrary: this)
  case Nil
  then show ?case by simp
next
  case (Cons e es)
  from multiple_dispatch [OF Cons.prems, of DEV e]
  obtain mid where mid: "dispatch DEV this e = Inr mid"
    "type_current mid = TypeMultiple" "multipleOk (value_current mid)"
    by blast
  from Cons.IH [OF mid(2,3)] mid(1) show ?case by simp
qed

text \<open>
  C5, as amended. In multiple mode, start from no selection or from an array without a same-day
  pair. Whatever sequence of \<^verbatim>\<open>handleCellClick\<close> calls, day clicks and watcher runs
  follows, it ends without a failure and the selection is again nothing or an array
  without a same-day pair. A click that removes the last remaining entry leaves the
  selection undefined and the placeholder on the clicked date, which is on the day of
  the removed entry; no click produces an empty array.
\<close>

theorem multiple_no_same_day_pair:
  assumes "type_current this = TypeMultiple" and "multipleOk (value_current this)"
  shows "(\<exists>this'. run DEV this es = Inr this' \<and> multipleOk (value_current this'))
    \<and> (\<forall>v date. value_current this = Dates [v] \<and> isSameDay v date \<and> accepts this date
           \<and> \<not> preventDeselect_current this
         \<longrightarrow> handleCellClick DEV this date =
               Inr (this\<lparr>value_current := Undefined, placeholder_current := date\<rparr>))
    \<and> (\<forall>date this'. handleCellClick DEV this date = Inr this'
           \<and> value_current this' = Dates [] \<longrightarrow> this' = this)"
proof (intro conjI allI impI)
  show "\<exists>this'. run DEV this es = Inr this' \<and> multipleOk (value_current this')"
    using multiple_run [OF assms, of DEV es] by blast
next
  fix v date
  assume h: "value_current this = Dates [v] \<and> isSameDay v date \<and> accepts this date
           \<and> \<not> preventDeselect_current this"
  then show "handleCellClick DEV this date =
               Inr (this\<lparr>value_current := Undefined, placeholder_current := date\<rparr>)"
    using multiple_present [of this date "[v]" DEV] assms(1) by simp
next
  fix date this'
  assume h: "handleCellClick DEV this date = Inr this' \<and> value_current this' = Dates []"
  show "this' = this"
  proof (cases "accepts this date")
    case False
    then have "handleCellClick DEV this date = Inr this"
      using handleCellClick_guards [of this date DEV] by (auto simp: accepts_def)
    with h show ?thesis by simp
  next
    case True
    show ?thesis
    proof (cases "value_current this")
      case Undefined
      with assms True h show ?thesis
        by (auto simp: multiple_first)
    next
      case (Date v)
      with assms show ?thesis by (simp add: multipleOk_def)
    next
      case (Dates vs)
      show ?thesis
      proof (cases "some (\<lambda>d. isSameDay d date) vs")
        case False
        with assms True Dates h show ?thesis
          by (auto simp: multiple_append)
      next
        case present: True
        with assms True Dates h show ?thesis
          by (auto simp: multiple_present split: if_splits)
      qed
    qed
  qed
qed

theorem multiple_no_same_day_pair_witness:
  "type_current calendarMultiple = TypeMultiple
   \<and> multipleOk (value_current calendarMultiple)
   \<and> (\<exists>this'. run True calendarMultiple
          [CellClick (CalendarDate 2024 3 1), ValueWatch, CellClick (CalendarDate 2024 3 15),
           DayClick (CalendarDateTime 2024 3 1 8 0 0 0), CellClick (CalendarDate 2024 3 15)]
          = Inr this'
        \<and> multipleOk (value_current this'))
   \<and> multipleOk (value_current calendarPicked)
   \<and> handleCellClick True (calendarPicked\<lparr>value_current := Dates [CalendarDate 2024 3 1]\<rparr>)
         (CalendarDateTime 2024 3 1 8 0 0 0)
       = Inr (calendarPicked\<lparr>value_current := Undefined,
                placeholder_current := CalendarDateTime 2024 3 1 8 0 0 0\<rparr>)"
proof -
  let ?one = "calendarPicked\<lparr>value_current := Dates [CalendarDate 2024 3 1]\<rparr>"
  have start: "type_current calendarMultiple = TypeMultiple"
    "multipleOk (value_current calendarMultiple)"
    by (simp_all add: calendar_simps multipleOk_def)
  have picked: "multipleOk (value_current calendarPicked)"
    by (simp add: calendar_simps multipleOk_def)
  have one: "type_current ?one = TypeMultiple" "multipleOk (value_current ?one)"
    by (simp_all add: calendar_simps multipleOk_def)
  have last: "value_current ?one = Dates [CalendarDate 2024 3 1]
      \<and> isSameDay (CalendarDate 2024 3 1) (CalendarDateTime 2024 3 1 8 0 0 0)
      \<and> accepts ?one (CalendarDateTime 2024 3 1 8 0 0 0)
      \<and> \<not> preventDeselect_current ?one"
    by (simp add: calendar_simps)
  note removal = multiple_no_same_day_pair [OF one, of True "[]", THEN conjunct2,
      THEN conjunct1, rule_format, OF last]
  note whole = multiple_no_same_day_pair [OF start, where DEV = True
      and es = "[CellClick (CalendarDate 2024 3 1), ValueWatch, CellClick (CalendarDate 2024 3 15),
           DayClick (CalendarDateTime 2024 3 1 8 0 0 0), CellClick (CalendarDate 2024 3 15)]",
      THEN conjunct1]
  have cleared: "handleCellClick True ?one (CalendarDateTime 2024 3 1 8 0 0 0)
       = Inr (calendarPicked\<lparr>value_current := Undefined,
                placeholder_current := CalendarDateTime 2024 3 1 8 0 0 0\<rparr>)"
    using removal by simp
  from whole cleared start picked show ?thesis by blast
qed

text \<open>
  C5 as stated has the placeholder set to the removed date. With 1 March 2024 as the
  only entry, a click on 1 March 2024 at 8:00 removes it and clears the selection; the
  placeholder is then the clicked date with its time, not the entry that was removed.
\<close>

theorem multiple_removed_entry_counterexample:
  "isSameDay (CalendarDate 2024 3 1) (CalendarDateTime 2024 3 1 8 0 0 0)
   \<and> map_sum id value_current
        (handleCellClick True (calendarMultiple\<lparr>value_current := Dates [CalendarDate 2024 3 1]\<rparr>)
           (CalendarDateTime 2024 3 1 8 0 0 0))
       = Inr Undefined
   \<and> map_sum id placeholder_current
        (handleCellClick True (calendarMultiple\<lparr>value_current := Dates [CalendarDate 2024 3 1]\<rparr>)
           (CalendarDateTime 2024 3 1 8 0 0 0))
       = Inr (CalendarDateTime 2024 3 1 8 0 0 0)
   \<and> map_sum id placeholder_current
        (handleCellClick True (calendarMultiple\<lparr>value_current := Dates [CalendarDate 2024 3 1]\<rparr>)
           (CalendarDateTime 2024 3 1 8 0 0 0))
       \<noteq> Inr (CalendarDate 2024 3 1)"
  by (simp add: calendar_simps click_simps)

text \<open>
  C6. In multiple mode a click the guards let through on a date with no same-day entry
  in the selection appends the date at the end of the array. So two clicks on dates of
  different days, from no selection, give the two dates in the order of the clicks and
  not in the order of the calendar.
\<close>

theorem multiple_appends_in_click_order:
  assumes "type_current this = TypeMultiple" and "accepts this date"
  shows "(\<forall>vs. value_current this = Dates vs \<and> \<not> some (\<lambda>d. isSameDay d date) vs
            \<longrightarrow> handleCellClick DEV this date = Inr (this\<lparr>value_current := Dates (vs @ [date])\<rparr>))
    \<and> (\<forall>later. value_current this = Undefined \<and> accepts this later \<and> \<not> isSameDay date later
            \<longrightarrow> run DEV this [CellClick date, CellClick later]
                = Inr (this\<lparr>value_current := Dates [date, later]\<rparr>))"
proof (intro conjI allI impI)
  fix vs
  assume "value_current this = Dates vs \<and> \<not> some (\<lambda>d. isSameDay d date) vs"
  with assms show "handleCellClick DEV this date = Inr (this\<lparr>value_current := Dates (vs @ [date])\<rparr>)"
    by (simp add: multiple_append)
next
  fix later
  assume h: "value_current this = Undefined \<and> accepts this later \<and> \<not> isSameDay date later"
  have one: "handleCellClick DEV this date = Inr (this\<lparr>value_current := Dates [date]\<rparr>)"
    using assms h by (simp add: multiple_first)
  have two: "handleCellClick DEV (this\<lparr>value_current := Dates [date]\<rparr>) later
      = Inr (this\<lparr>value_current := Dates [date]\<rparr>\<lparr>value_current := Dates ([date] @ [later])\<rparr>)"
    using assms h by (intro multiple_append) (auto simp: accepts_def)
  from one two show "run DEV this [CellClick date, CellClick later]
                = Inr (this\<lparr>value_current := Dates [date, later]\<rparr>)"
    by simp
qed

theorem multiple_appends_in_click_order_witness:
  "type_current calendarMultiple = TypeMultiple
   \<and> accepts calendarMultiple (CalendarDate 2024 3 1)
   \<and> accepts calendarMultiple (CalendarDate 2024 3 15)
   \<and> value_current calendarMultiple = Undefined
   \<and> \<not> isSameDay (CalendarDate 2024 3 1) (CalendarDate 2024 3 15)
   \<and> run True calendarMultiple [CellClick (CalendarDate 2024 3 1), CellClick (CalendarDate 2024 3 15)]
       = Inr (calendarMultiple\<lparr>value_current :=
                Dates [CalendarDate 2024 3 1, CalendarDate 2024 3 15]\<rparr>)
   \<and> run True calendarMultiple [CellClick (CalendarDate 2024 3 15), CellClick (CalendarDate 2024 3 1)]
       = Inr (calendarMultiple\<lparr>value_current :=
                Dates [CalendarDate 2024 3 15, CalendarDate 2024 3 1]\<rparr>)
   \<and> handleCellClick True calendarPicked (CalendarDate 2024 3 8)
       = Inr (calendarPicked\<lparr>value_current :=
                Dates [CalendarDate 2024 3 15, CalendarDate 2024 3 1, CalendarDate 2024 3 8]\<rparr>)"
proof -
  have hyps: "type_current calendarMultiple = TypeMultiple"
    "accepts calendarMultiple (CalendarDate 2024 3 1)"
    "accepts calendarMultiple (CalendarDate 2024 3 15)"
    "value_current calendarMultiple = Undefined"
    "\<not> isSameDay (CalendarDate 2024 3 1) (CalendarDate 2024 3 15)"
    "\<not> isSameDay (CalendarDate 2024 3 15) (CalendarDate 2024 3 1)"
    by (simp_all add: calendar_simps)
  have picked: "type_current calendarPicked = TypeMultiple"
    "accepts calendarPicked (CalendarDate 2024 3 8)"
    "value_current calendarPicked = Dates [CalendarDate 2024 3 15, CalendarDate 2024 3 1]"
    "\<not> some (\<lambda>d. isSameDay d (CalendarDate 2024 3 8)) [CalendarDate 2024 3 15, CalendarDate 2024 3 1]"
    by (simp_all add: calendar_simps)
  from multiple_appends_in_click_order [OF hyps(1,2), of True]
    multiple_appends_in_click_order [OF hyps(1,3), of True]
    multiple_appends_in_click_order [OF picked(1,2), of True]
    hyps picked
  show ?thesis by simp
qed

subsection \<open>The selection watcher\<close>

text \<open>
  C8. When the selection has changed, the watcher moves the placeholder to the last
  entry of a non-empty array and to the date of a single selection; on an undefined
  selection or an empty array it changes nothing. It never writes the selection.
\<close>

theorem watchValue_syncs_placeholder:
  "(\<forall>vs. value_current this = Dates vs \<and> vs \<noteq> []
        \<longrightarrow> watchValue this = this\<lparr>placeholder_current := last vs\<rparr>)
   \<and> (\<forall>v. value_current this = Date v
        \<longrightarrow> watchValue this = this\<lparr>placeholder_current := v\<rparr>)
   \<and> (value_current this = Undefined \<or> value_current this = Dates []
        \<longrightarrow> watchValue this = this)
   \<and> value_current (watchValue this) = value_current this"
  by (auto simp: watchValue_def split: SelectionValue.splits)

theorem watchValue_syncs_placeholder_witness:
  "value_current calendarPicked = Dates [CalendarDate 2024 3 15, CalendarDate 2024 3 1]
   \<and> placeholder_current (watchValue calendarPicked) = CalendarDate 2024 3 1
   \<and> value_current calendarSelected = Date (CalendarDate 2024 1 5)
   \<and> placeholder_current (watchValue calendarSelected) = CalendarDate 2024 1 5
   \<and> value_current calendar0 = Undefined
   \<and> placeholder_current (watchValue calendar0) = placeholder_current calendar0
   \<and> value_current (watchValue calendarPicked) = value_current calendarPicked"
proof -
  have vals: "value_current calendarPicked = Dates [CalendarDate 2024 3 15, CalendarDate 2024 3 1]"
    "value_current calendarSelected = Date (CalendarDate 2024 1 5)"
    "value_current calendar0 = Undefined"
    by (simp_all add: calendar_simps)
  from watchValue_syncs_placeholder [of calendarPicked]
    watchValue_syncs_placeholder [of calendarSelected]
    watchValue_syncs_placeholder [of calendar0] vals
  show ?thesis by simp
qed

subsection \<open>Paging\<close>

lemma setDate_fields [simp]:
  "year (setDate x y m d) = y" "month (setDate x y m d) = m" "day (setDate x y m d) = d"
  by (cases x; simp)+

lemma setDate_setDate [simp]: "setDate (setDate x a b c) y m d = setDate x y m d"
  by (cases x) simp_all

lemma setDate_same: "setDate x (year x) (month x) (day x) = x"
  by (cases x) simp_all

lemma monthIndex_addMonths: "monthIndex (addMonths x n) = monthIndex x + n"
  by (simp add: monthIndex_def addMonths_def Let_def)

lemma startOfMonth_addMonths:
  "startOfMonth (addMonths x n) =
     setDate x ((monthIndex x + n) div 12) ((monthIndex x + n) mod 12 + 1) 1"
  by (simp add: startOfMonth_def addMonths_def monthIndex_def Let_def)

lemma monthIndex_startOfMonth: "monthIndex (startOfMonth x) = monthIndex x"
  by (simp add: startOfMonth_def monthIndex_def)

lemma setDate_addMonths [simp]: "setDate (addMonths x a) y m d = setDate x y m d"
  by (simp add: addMonths_def Let_def)

lemma startOfMonth_addMonths_addMonths:
  "startOfMonth (addMonths (addMonths x a) b) = startOfMonth (addMonths x (a + b))"
  by (simp add: startOfMonth_addMonths monthIndex_addMonths add.assoc)

lemma monthIndex_setDate: "monthIndex (setDate x y m d) = y * 12 + (m - 1)"
  by (simp add: monthIndex_def)

lemma monthIndex_split: "(t div 12) * 12 + (t mod 12 + 1 - 1) = (t::int)"
  by simp

lemma startOfMonth_addMonths_startOfMonth:
  "startOfMonth (addMonths (startOfMonth (addMonths x a)) b) = startOfMonth (addMonths x (a + b))"
proof -
  define y where "y = startOfMonth (addMonths x a)"
  have y: "y = setDate x ((monthIndex x + a) div 12) ((monthIndex x + a) mod 12 + 1) 1"
    by (simp add: y_def startOfMonth_addMonths)
  have "monthIndex y = monthIndex x + a"
    unfolding y monthIndex_setDate by (rule monthIndex_split)
  then have "startOfMonth (addMonths y b)
      = setDate y ((monthIndex x + a + b) div 12) ((monthIndex x + a + b) mod 12 + 1) 1"
    by (simp add: startOfMonth_addMonths)
  also have "\<dots> = setDate x ((monthIndex x + a + b) div 12) ((monthIndex x + a + b) mod 12 + 1) 1"
    by (simp add: y)
  also have "\<dots> = startOfMonth (addMonths x (a + b))"
    by (simp add: startOfMonth_addMonths add.assoc)
  finally show ?thesis by (simp add: y_def)
qed

lemma startOfMonth_addMonths_0:
  assumes "1 \<le> month x" and "month x \<le> 12"
  shows "startOfMonth (addMonths x 0) = startOfMonth x"
proof -
  have "(year x * 12 + (month x - 1)) div 12 = year x"
    and "(year x * 12 + (month x - 1)) mod 12 + 1 = month x"
    using assms by auto
  then have "setDate x ((monthIndex x + 0) div 12) ((monthIndex x + 0) mod 12 + 1) 1
      = setDate x (year x) (month x) 1"
    by (simp add: monthIndex_def)
  then show ?thesis
    unfolding startOfMonth_addMonths by (simp add: startOfMonth_def)
qed

lemma startOfMonth_first: "day x = 1 \<Longrightarrow> startOfMonth x = x"
  using setDate_same [of x] by (simp add: startOfMonth_def)

lemma visible_createMonths:
  "map month_value (createMonths x n) = map (\<lambda>i. startOfMonth (addMonths x (int i))) [0..<n]"
  by (simp add: createMonths_def comp_def)

lemma createMonths_Cons:
  "0 < n \<Longrightarrow> \<exists>rest. map month_value (createMonths x n) = startOfMonth (addMonths x 0) # rest"
  by (cases n) (simp_all add: createMonths_def upt_rec [of 0] del: upt_Suc)


lemma months_of_visible:
  "visibleMonths this = first # rest \<Longrightarrow> \<exists>m ms. months this = m # ms \<and> month_value m = first"
  by (auto simp: visibleMonths_def)

lemma visible_nextPage:
  assumes "visibleMonths this = first # rest"
  shows "visibleMonths (nextPage this) =
     map (\<lambda>i. startOfMonth (addMonths first
           ((if pagedNavigation_current this then int (numberOfMonths_current this) else 1) + int i)))
       [0..<numberOfMonths_current this]"
proof -
  from months_of_visible [OF assms] obtain m ms where "months this = m # ms" "month_value m = first"
    by blast
  then show ?thesis
    by (simp add: nextPage_def handleCalendarNextPage_def visibleMonths_def
        visible_createMonths startOfMonth_addMonths_addMonths Let_def)
qed

lemma visible_prevPage:
  assumes "visibleMonths this = first # rest"
  shows "visibleMonths (prevPage this) =
     map (\<lambda>i. startOfMonth (addMonths first
           (- (if pagedNavigation_current this then int (numberOfMonths_current this) else 1) + int i)))
       [0..<numberOfMonths_current this]"
proof -
  from months_of_visible [OF assms] obtain m ms where "months this = m # ms" "month_value m = first"
    by blast
  then show ?thesis
    by (simp add: prevPage_def handleCalendarPrevPage_def visibleMonths_def
        visible_createMonths startOfMonth_addMonths_addMonths Let_def)
qed

lemma page_keeps:
  "numberOfMonths_current (nextPage this) = numberOfMonths_current this
   \<and> pagedNavigation_current (nextPage this) = pagedNavigation_current this
   \<and> value_current (nextPage this) = value_current this
   \<and> numberOfMonths_current (prevPage this) = numberOfMonths_current this
   \<and> pagedNavigation_current (prevPage this) = pagedNavigation_current this
   \<and> value_current (prevPage this) = value_current this"
  by (simp add: nextPage_def prevPage_def handleCalendarNextPage_def handleCalendarPrevPage_def
      Let_def split: list.splits)

lemma upt_first: "0 < n \<Longrightarrow> map f [0..<n] = f 0 # map f [1..<n]"
  by (simp add: upt_rec [of 0])

text \<open>
  C9. Let the window start at a month \<open>first\<close> and let the calendar show at least one
  month. With paged navigation, \<^verbatim>\<open>nextPage\<close> puts the window's first month
  \<open>numberOfMonths\<close> months after \<open>first\<close>, \<^verbatim>\<open>prevPage\<close> as many months before it, and
  \<^verbatim>\<open>nextPage\<close> followed by \<^verbatim>\<open>prevPage\<close> brings it back to \<open>first\<close>. Without paged
  navigation, after \<^verbatim>\<open>nextPage\<close> the window is the months from one month after \<open>first\<close>
  on, and after \<^verbatim>\<open>prevPage\<close> the months from one month before \<open>first\<close> on.
\<close>

theorem paging_round_trip_and_shift:
  assumes window: "visibleMonths this = first # rest"
    and count: "0 < numberOfMonths_current this"
    and valid: "validDate first" and start: "day first = 1"
  shows "(pagedNavigation_current this \<longrightarrow>
        (\<exists>rest'. visibleMonths (nextPage this)
            = startOfMonth (addMonths first (int (numberOfMonths_current this))) # rest')
      \<and> (\<exists>rest'. visibleMonths (prevPage this)
            = startOfMonth (addMonths first (- int (numberOfMonths_current this))) # rest')
      \<and> (\<exists>rest'. visibleMonths (prevPage (nextPage this)) = first # rest'))
    \<and> (\<not> pagedNavigation_current this \<longrightarrow>
        visibleMonths (nextPage this)
          = map (\<lambda>i. startOfMonth (addMonths first (int i + 1))) [0..<numberOfMonths_current this]
      \<and> visibleMonths (prevPage this)
          = map (\<lambda>i. startOfMonth (addMonths first (int i - 1))) [0..<numberOfMonths_current this])"
proof (intro conjI impI)
  assume paged: "pagedNavigation_current this"
  let ?n = "numberOfMonths_current this"
  have fwd: "visibleMonths (nextPage this)
      = startOfMonth (addMonths first (int ?n))
        # map (\<lambda>i. startOfMonth (addMonths first (int ?n + int i))) [1..<?n]"
    using visible_nextPage [OF window] paged count by (simp add: upt_first)
  then show "\<exists>rest'. visibleMonths (nextPage this) = startOfMonth (addMonths first (int ?n)) # rest'"
    by blast
  show "\<exists>rest'. visibleMonths (prevPage this) = startOfMonth (addMonths first (- int ?n)) # rest'"
    using visible_prevPage [OF window] paged count by (simp add: upt_first)
  have returned: "visibleMonths (prevPage (nextPage this))
      = map (\<lambda>i. startOfMonth (addMonths (startOfMonth (addMonths first (int ?n)))
              (- int ?n + int i))) [0..<?n]"
    using visible_prevPage [OF fwd] paged by (simp add: page_keeps)
  have "startOfMonth (addMonths (startOfMonth (addMonths first (int ?n))) (- int ?n + int 0))
      = first"
    using valid start
    by (simp add: startOfMonth_addMonths_startOfMonth startOfMonth_addMonths_0
        startOfMonth_first validDate_def)
  with returned count show "\<exists>rest'. visibleMonths (prevPage (nextPage this)) = first # rest'"
    by (simp add: upt_first)
next
  assume "\<not> pagedNavigation_current this"
  then show "visibleMonths (nextPage this)
      = map (\<lambda>i. startOfMonth (addMonths first (int i + 1))) [0..<numberOfMonths_current this]"
    using visible_nextPage [OF window] by (simp add: add.commute)
next
  assume "\<not> pagedNavigation_current this"
  then show "visibleMonths (prevPage this)
      = map (\<lambda>i. startOfMonth (addMonths first (int i - 1))) [0..<numberOfMonths_current this]"
    using visible_prevPage [OF window] by simp
qed

theorem paging_round_trip_and_shift_witness:
  "visibleMonths calendar0 = [CalendarDate 2024 1 1, CalendarDate 2024 2 1]
   \<and> 0 < numberOfMonths_current calendar0
   \<and> validDate (CalendarDate 2024 1 1) \<and> day (CalendarDate 2024 1 1) = 1
   \<and> pagedNavigation_current calendar0
   \<and> (\<exists>rest'. visibleMonths (nextPage calendar0) = CalendarDate 2024 3 1 # rest')
   \<and> (\<exists>rest'. visibleMonths (prevPage (nextPage calendar0)) = CalendarDate 2024 1 1 # rest')
   \<and> visibleMonths calendarRolling = [CalendarDate 2024 1 1, CalendarDate 2024 2 1]
   \<and> \<not> pagedNavigation_current calendarRolling
   \<and> visibleMonths (nextPage calendarRolling) = [CalendarDate 2024 2 1, CalendarDate 2024 3 1]
   \<and> visibleMonths (prevPage calendarRolling) = [CalendarDate 2023 12 1, CalendarDate 2024 1 1]"
proof -
  have paged: "visibleMonths calendar0 = [CalendarDate 2024 1 1, CalendarDate 2024 2 1]"
    "0 < numberOfMonths_current calendar0" "pagedNavigation_current calendar0"
    by (simp_all add: calendar0_def visibleMonths_def)
  have rolling: "visibleMonths calendarRolling = [CalendarDate 2024 1 1, CalendarDate 2024 2 1]"
    "0 < numberOfMonths_current calendarRolling" "\<not> pagedNavigation_current calendarRolling"
    "numberOfMonths_current calendarRolling = 2"
    by (simp_all add: calendarRolling_def calendar0_def visibleMonths_def)
  have january: "validDate (CalendarDate 2024 1 1)" "day (CalendarDate 2024 1 1) = 1"
    by (simp_all add: validDate_def daysInMonth_def)
  have months: "startOfMonth (addMonths (CalendarDate 2024 1 1) 2) = CalendarDate 2024 3 1"
    "startOfMonth (addMonths (CalendarDate 2024 1 1) 1) = CalendarDate 2024 2 1"
    "startOfMonth (addMonths (CalendarDate 2024 1 1) 0) = CalendarDate 2024 1 1"
    "startOfMonth (addMonths (CalendarDate 2024 1 1) (- 1)) = CalendarDate 2023 12 1"
    by (simp_all add: startOfMonth_def addMonths_def daysInMonth_def isLeapYear_def Let_def)
  have two: "[0..<2] = [0, Suc 0]"
    by (simp add: upt_rec)
  have count: "int (numberOfMonths_current calendar0) = 2"
    by (simp add: calendar0_def)
  from paging_round_trip_and_shift [OF paged(1,2) january]
    paging_round_trip_and_shift [OF rolling(1,2) january]
    paged rolling january
  show ?thesis
    by (simp add: months two count)
qed

end
